theory Spec2Isabelle
  imports Complex_Main
begin

section \<open>The constant node of the protocol-schema parser (constant.ts)\<close>

text \<open>
  The class \<^verbatim>\<open>Constant\<close> of constant.ts is embedded as a record, its constructor and its
  static \<^verbatim>\<open>parse\<close> as functions. A JavaScript string is a \<^typ>\<open>string\<close> whose characters
  stand for code units below 256; a position \<^verbatim>\<open>[line, column]\<close> is a pair of naturals.
\<close>

subsection \<open>JavaScript built-ins used by the constructor\<close>

text \<open>
  \<^verbatim>\<open>Number(s)\<close> on a string follows the StringNumericLiteral grammar of ECMAScript:
  white space is trimmed, the empty text is 0, a decimal literal may carry a sign, a
  fraction and an exponent, \<^verbatim>\<open>Infinity\<close> is spelled out in full, binary, octal and
  hexadecimal literals carry no sign, and every other text is NaN. A finite result is kept
  as the exact rational it denotes (the rounding to a double inside the finite range and
  the sign of zero are not represented); a magnitude of at least \<open>2^1024 - 2^970\<close> rounds
  to an infinity.
\<close>

datatype JSNumber = Finite rat | PosInfinity | NegInfinity | NaN

definition isFinite :: "JSNumber \<Rightarrow> bool" where
  "isFinite n = (case n of Finite q \<Rightarrow> True | _ \<Rightarrow> False)"

definition isNaN :: "JSNumber \<Rightarrow> bool" where
  "isNaN n = (n = NaN)"

definition isStrWhiteSpaceChar :: "char \<Rightarrow> bool" where
  "isStrWhiteSpaceChar c =
     (c \<in> set [CHR 0x09, CHR 0x0A, CHR 0x0B, CHR 0x0C, CHR 0x0D, CHR 0x20, CHR 0xA0])"

definition trimString :: "string \<Rightarrow> string" where
  "trimString s = rev (dropWhile isStrWhiteSpaceChar (rev (dropWhile isStrWhiteSpaceChar s)))"

definition digitValue :: "char \<Rightarrow> nat option" where
  "digitValue c =
     (let k = (of_char c :: nat) in
      if 48 \<le> k \<and> k \<le> 57 then Some (k - 48)
      else if 97 \<le> k \<and> k \<le> 102 then Some (k - 87)
      else if 65 \<le> k \<and> k \<le> 70 then Some (k - 55)
      else None)"

definition isDigit :: "nat \<Rightarrow> char \<Rightarrow> bool" where
  "isDigit radix c = (case digitValue c of Some d \<Rightarrow> d < radix | None \<Rightarrow> False)"

definition digitsValue :: "nat \<Rightarrow> string \<Rightarrow> nat" where
  "digitsValue radix ds =
     foldl (\<lambda>acc c. acc * radix + (case digitValue c of Some d \<Rightarrow> d | None \<Rightarrow> 0)) 0 ds"

definition roundMV :: "rat \<Rightarrow> JSNumber" where
  "roundMV q =
     (if 2 ^ 1024 - 2 ^ 970 \<le> q then PosInfinity
      else if q \<le> - (2 ^ 1024 - 2 ^ 970) then NegInfinity
      else Finite q)"

definition negate :: "JSNumber \<Rightarrow> JSNumber" where
  "negate n = (case n of Finite q \<Rightarrow> Finite (- q) | PosInfinity \<Rightarrow> NegInfinity
                | NegInfinity \<Rightarrow> PosInfinity | NaN \<Rightarrow> NaN)"

definition scale10 :: "nat \<Rightarrow> int \<Rightarrow> rat" where
  "scale10 m e =
     (if 0 \<le> e then of_nat (m * 10 ^ nat e) else of_nat m / of_nat (10 ^ nat (- e)))"

definition exponentPart :: "string \<Rightarrow> int option" where
  "exponentPart s =
     (case s of
        [] \<Rightarrow> Some 0
      | c # r \<Rightarrow>
          if c = CHR ''e'' \<or> c = CHR ''E'' then
            (let neg = (r \<noteq> [] \<and> hd r = CHR ''-'');
                 ds = (if r \<noteq> [] \<and> (hd r = CHR ''+'' \<or> hd r = CHR ''-'') then tl r else r)
             in if ds \<noteq> [] \<and> list_all (isDigit 10) ds
                then Some (if neg then - int (digitsValue 10 ds) else int (digitsValue 10 ds))
                else None)
          else None)"

definition strUnsignedDecimalLiteral :: "string \<Rightarrow> JSNumber" where
  "strUnsignedDecimalLiteral s =
     (if s = ''Infinity'' then PosInfinity
      else
        let ip = takeWhile (isDigit 10) s;
            r1 = dropWhile (isDigit 10) s;
            dot = (r1 \<noteq> [] \<and> hd r1 = CHR ''.'');
            fp = (if dot then takeWhile (isDigit 10) (tl r1) else []);
            r2 = (if dot then dropWhile (isDigit 10) (tl r1) else r1)
        in if ip = [] \<and> fp = [] then NaN
           else (case exponentPart r2 of
                   None \<Rightarrow> NaN
                 | Some e \<Rightarrow> roundMV (scale10 (digitsValue 10 (ip @ fp)) (e - int (length fp)))))"

definition strDecimalLiteral :: "string \<Rightarrow> JSNumber" where
  "strDecimalLiteral s =
     (case s of
        [] \<Rightarrow> NaN
      | c # r \<Rightarrow>
          if c = CHR ''+'' then strUnsignedDecimalLiteral r
          else if c = CHR ''-'' then negate (strUnsignedDecimalLiteral r)
          else strUnsignedDecimalLiteral s)"

definition nonDecimalRadix :: "string \<Rightarrow> nat option" where
  "nonDecimalRadix s =
     (case s of
        c # d # r \<Rightarrow>
          if c \<noteq> CHR ''0'' then None
          else if d = CHR ''b'' \<or> d = CHR ''B'' then Some 2
          else if d = CHR ''o'' \<or> d = CHR ''O'' then Some 8
          else if d = CHR ''x'' \<or> d = CHR ''X'' then Some 16
          else None
      | _ \<Rightarrow> None)"

definition strNumericLiteral :: "string \<Rightarrow> JSNumber" where
  "strNumericLiteral s =
     (case nonDecimalRadix s of
        Some radix \<Rightarrow>
          (let ds = drop 2 s
           in if ds \<noteq> [] \<and> list_all (isDigit radix) ds
              then roundMV (of_nat (digitsValue radix ds)) else NaN)
      | None \<Rightarrow> strDecimalLiteral s)"

definition Number :: "string \<Rightarrow> JSNumber" where
  "Number s = (let t = trimString s in if t = [] then Finite 0 else strNumericLiteral t)"

text \<open>
  \<^verbatim>\<open>s.slice(b, e)\<close>: a negative index counts from the end, both indices are clamped to
  the string, and an empty span gives the empty string.
\<close>

definition slice :: "string \<Rightarrow> int \<Rightarrow> int \<Rightarrow> string" where
  "slice s b e =
     (let len = int (length s);
          from = (if b < 0 then max (len + b) 0 else min b len);
          to = (if e < 0 then max (len + e) 0 else min e len)
      in take (nat (max (to - from) 0)) (drop (nat from) s))"

subsection \<open>The node\<close>

datatype LiteralType = LIdentifier | LString | LInt | LFloat | LBoolean

datatype Value = VBoolean bool | VString string | VNumber JSNumber | VNull

record Constant =
  literalType :: LiteralType
  raw :: string
  start :: "nat \<times> nat"
  end' :: "nat \<times> nat"
  value' :: Value

text \<open>
  The constructor: \<^verbatim>\<open>this.value = this.raw\<close>, then the conversion chosen by
  \<^verbatim>\<open>literalType\<close>; an identifier keeps the raw text. The fields \<^verbatim>\<open>end\<close> and
  \<^verbatim>\<open>value\<close> are written \<open>end'\<close> and \<open>value'\<close>.
\<close>

definition constructor :: "LiteralType \<Rightarrow> string \<Rightarrow> nat \<times> nat \<Rightarrow> nat \<times> nat \<Rightarrow> Constant" where
  "constructor lt r st en =
     \<lparr> literalType = lt, raw = r, start = st, end' = en,
       value' =
         (if lt = LInt \<or> lt = LFloat then
            (let n = Number r in if \<not> isFinite n \<or> isNaN n then VNull else VNumber n)
          else if lt = LString then VString (slice r 1 (- 1))
          else if lt = LBoolean then VBoolean (r = ''true'')
          else VString r) \<rparr>"

definition toProto :: "Constant \<Rightarrow> string" where
  "toProto c = raw c"

subsection \<open>The token source\<close>

text \<open>
  \<^verbatim>\<open>Scanner\<close>, \<^verbatim>\<open>Token\<close> and \<^verbatim>\<open>TokenError\<close> come from deps.ts. constant.ts names six
  members of \<^verbatim>\<open>Token\<close>; \<open>Token_other\<close> stands for any member it does not name. Of the
  scanner, constant.ts reads \<^verbatim>\<open>contents\<close>, \<^verbatim>\<open>startPos\<close> and \<^verbatim>\<open>endPos\<close>: they are the
  fields of an extensible record, whose extension is the state the scanner keeps for
  itself. The methods that advance the scanner, \<^verbatim>\<open>scan\<close> and the helper
  \<^verbatim>\<open>expectFullIdent\<close> of util.ts, are parameters of \<open>parse\<close>: each takes the scanner and
  returns the scanner it leaves behind, or the error it throws.
\<close>

datatype Token =
  Token_string | Token_identifier | Token_int | Token_float | Token_token | Token_keyword
  | Token_other

record Scanner =
  contents :: string
  startPos :: "nat \<times> nat"
  endPos :: "nat \<times> nat"

text \<open>
  What \<open>parse\<close> throws: its own \<^verbatim>\<open>TokenError(scanner, token)\<close>, or whatever an awaited
  scanner call throws, passed through unchanged.
\<close>

datatype ('s, 'e) ParseError = TokenError 's Token | Thrown 'e

subsection \<open>parse\<close>

text \<open>
  \<^verbatim>\<open>Constant.parse\<close>. The triple computed first is the state of the local variables
  \<^verbatim>\<open>type\<close> and \<^verbatim>\<open>value\<close> and of the scanner when the chain of conditions is left; the
  node is then built from it with \<^verbatim>\<open>start\<close> and the scanner's \<^verbatim>\<open>endPos\<close>. In JavaScript
  \<^verbatim>\<open>a && b || c\<close> is \<^verbatim>\<open>(a && b) || c\<close>, which is how the boolean condition reads here.
  After a sign that is not followed by the keyword \<^verbatim>\<open>inf\<close>, \<^verbatim>\<open>type\<close> still holds the
  \<^verbatim>\<open>"string"\<close> it was initialised with and \<^verbatim>\<open>value\<close> the sign.
\<close>

definition parse ::
  "('a Scanner_scheme \<Rightarrow> 'e + Token \<times> 'a Scanner_scheme) \<Rightarrow>
   ('a Scanner_scheme \<Rightarrow> bool \<Rightarrow> 'e + 'r \<times> 'a Scanner_scheme) \<Rightarrow>
   'a Scanner_scheme \<Rightarrow> ('a Scanner_scheme, 'e) ParseError + Constant \<times> 'a Scanner_scheme"
where
  "parse scan expectFullIdent scanner =
     (case scan scanner of
        Inl e \<Rightarrow> Inl (Thrown e)
      | Inr (token, s1) \<Rightarrow>
          let start = startPos s1;
              value = contents s1;
              classified =
                (if token = Token_string then Inr (LString, value, s1)
                 else if (token = Token_identifier \<and> value = ''false'') \<or> value = ''true''
                 then Inr (LBoolean, value, s1)
                 else if token = Token_identifier then
                   (case expectFullIdent s1 False of
                      Inl e \<Rightarrow> Inl (Thrown e)
                    | Inr (r, s2) \<Rightarrow> Inr (LIdentifier, value, s2))
                 else if token = Token_int then Inr (LInt, value, s1)
                 else if token = Token_float then Inr (LFloat, value, s1)
                 else if token = Token_token \<and> (value = ''-'' \<or> value = ''+'') then
                   (let sign = value in
                    case scan s1 of
                      Inl e \<Rightarrow> Inl (Thrown e)
                    | Inr (token2, s2) \<Rightarrow>
                        if token2 = Token_keyword \<and> contents s2 = ''inf''
                        then Inr (LInt, sign @ contents s2, s2)
                        else Inr (LString, value, s2))
                 else if token = Token_keyword \<and> (value = ''inf'' \<or> value = ''nan'')
                 then Inr (LInt, value, s1)
                 else Inl (TokenError s1 token))
          in (case classified of
                Inl err \<Rightarrow> Inl err
              | Inr (type, value, s) \<Rightarrow> Inr (constructor type value start (endPos s), s)))"

subsection \<open>A token source over a list of lexemes\<close>

text \<open>
  Modelled from the spec: the \<^verbatim>\<open>Scanner\<close> class of deps.ts and the helper
  \<^verbatim>\<open>expectFullIdent\<close> of util.ts are not among the sources. The token source of the
  spec advances to the next token and returns its tag, exposes the text of the current
  token and the positions just before and just after it, and fails when the input is
  exhausted; its helper consumes a dotted identifier continuation, given a flag for
  whether the continuation must begin with a separator. Here the input still to be
  scanned is a list of lexemes: tag, text, position before, position after.
\<close>

type_synonym lexeme = "Token \<times> string \<times> (nat \<times> nat) \<times> (nat \<times> nat)"

record ListScanner = Scanner +
  pending :: "lexeme list"

datatype SourceError = InputExhausted | SeparatorExpected

definition scanList :: "ListScanner \<Rightarrow> SourceError + Token \<times> ListScanner" where
  "scanList s =
     (case pending s of
        [] \<Rightarrow> Inl InputExhausted
      | (t, txt, p, q) # rest \<Rightarrow>
          Inr (t, s\<lparr>contents := txt, startPos := p, endPos := q, pending := rest\<rparr>))"

fun identContinuation :: "lexeme list \<Rightarrow> lexeme list" where
  "identContinuation (d # i # rest) =
     (if fst d = Token_token \<and> fst (snd d) = ''.'' \<and> fst i = Token_identifier
      then d # i # identContinuation rest else [])"
| "identContinuation _ = []"

definition expectFullIdentList :: "ListScanner \<Rightarrow> bool \<Rightarrow> SourceError + string \<times> ListScanner" where
  "expectFullIdentList s anchored =
     (let cs = identContinuation (pending s) in
      if cs = [] then (if anchored then Inl SeparatorExpected else Inr (contents s, s))
      else Inr (contents s @ concat (map (\<lambda>l. fst (snd l)) cs),
                s\<lparr>contents := fst (snd (last cs)),
                  startPos := fst (snd (snd (last cs))),
                  endPos := snd (snd (snd (last cs))),
                  pending := drop (length cs) (pending s)\<rparr>))"

text \<open>A scanner that has not scanned yet, at the head of the given input.\<close>

definition newScanner :: "lexeme list \<Rightarrow> ListScanner" where
  "newScanner ls = \<lparr>contents = [], startPos = (0, 0), endPos = (0, 0), pending = ls\<rparr>"

text \<open>
  The source text of the tokens consumed between two states of the list scanner: the
  texts of the lexemes that left the pending input, in order.
\<close>

definition consumedText :: "ListScanner \<Rightarrow> ListScanner \<Rightarrow> string" where
  "consumedText s s' =
     concat (map (\<lambda>l. fst (snd l)) (take (length (pending s) - length (pending s')) (pending s)))"

subsection \<open>Run-time types of values\<close>

text \<open>
  The run-time type of a \<^verbatim>\<open>value\<close>, and the type the node's \<^verbatim>\<open>literalType\<close> asks for: a
  boolean for a boolean, a string for a string or an identifier, and for a number a
  number when \<^verbatim>\<open>Number(raw)\<close> is finite and not NaN, \<^verbatim>\<open>null\<close> otherwise.
\<close>

datatype JSType = TBoolean | TString | TNumber | TNull

definition typeOf :: "Value \<Rightarrow> JSType" where
  "typeOf v = (case v of VBoolean b \<Rightarrow> TBoolean | VString t \<Rightarrow> TString
                | VNumber n \<Rightarrow> TNumber | VNull \<Rightarrow> TNull)"

definition numericType :: "string \<Rightarrow> JSType" where
  "numericType r = (if isFinite (Number r) \<and> \<not> isNaN (Number r) then TNumber else TNull)"

definition kindValueConsistent :: "Constant \<Rightarrow> bool" where
  "kindValueConsistent c =
     (typeOf (value' c) =
        (case literalType c of
           LBoolean \<Rightarrow> TBoolean
         | LString \<Rightarrow> TString
         | LIdentifier \<Rightarrow> TString
         | LInt \<Rightarrow> numericType (raw c)
         | LFloat \<Rightarrow> numericType (raw c)))"

subsection \<open>Inputs\<close>

text \<open>The lexemes of \<^verbatim>\<open>my.Enum.VALUE\<close> and of \<^verbatim>\<open>-1\<close>, on line 1 from column 0.\<close>

definition dottedName :: "lexeme list" where
  "dottedName =
     [(Token_identifier, ''my'', (1, 0), (1, 2)), (Token_token, ''.'', (1, 2), (1, 3)),
      (Token_identifier, ''Enum'', (1, 3), (1, 7)), (Token_token, ''.'', (1, 7), (1, 8)),
      (Token_identifier, ''VALUE'', (1, 8), (1, 13))]"

definition minusOne :: "lexeme list" where
  "minusOne = [(Token_token, ''-'', (1, 0), (1, 1)), (Token_int, ''1'', (1, 1), (1, 2))]"

section \<open>Properties\<close>

subsection \<open>The built-ins\<close>

lemmas Number_unfold = Number_def trimString_def isStrWhiteSpaceChar_def strNumericLiteral_def
  nonDecimalRadix_def strDecimalLiteral_def strUnsignedDecimalLiteral_def isDigit_def
  digitValue_def negate_def exponentPart_def digitsValue_def scale10_def roundMV_def

lemma Number_inf: "Number ''inf'' = NaN"
  by (simp add: Number_unfold)

lemma Number_nan: "Number ''nan'' = NaN"
  by (simp add: Number_unfold)

lemma Number_minus_inf: "Number ''-inf'' = NaN"
  by (simp add: Number_unfold)

lemma Number_plus_inf: "Number ''+inf'' = NaN"
  by (simp add: Number_unfold)

lemma Number_overflow: "Number ''1e400'' = PosInfinity"
  by (simp add: Number_unfold)

lemma Number_malformed: "Number ''1.2.3'' = NaN"
  by (simp add: Number_unfold)

lemma Number_decimal: "Number ''-4.25e1'' = Finite (- 85 / 2)"
  by (simp add: Number_unfold)

lemma slice_strip: "slice s 1 (- 1) = butlast (tl s)"
  by (cases s) (auto simp: slice_def Let_def butlast_conv_take max_def min_def nat_diff_distrib)

subsection \<open>Re-serialisation\<close>

lemma constructor_fields:
  "literalType (constructor lt r st en) = lt \<and> raw (constructor lt r st en) = r \<and>
   start (constructor lt r st en) = st \<and> end' (constructor lt r st en) = en"
  by (simp add: constructor_def)

lemma toProto_constructor: "toProto (constructor lt r st en) = r"
  by (simp add: toProto_def constructor_def)

text \<open>
  On the paths that consume one token, the raw text is the text of that token, whatever
  the scanner: a string, an integer, a float, a bare \<^verbatim>\<open>inf\<close> or \<^verbatim>\<open>nan\<close>.
\<close>

lemma parse_single_token:
  assumes "scan scanner = Inr (token, s1)"
    and "token = Token_string \<or>
         (contents s1 \<noteq> ''true'' \<and>
          (token = Token_int \<or> token = Token_float \<or>
           (token = Token_keyword \<and> (contents s1 = ''inf'' \<or> contents s1 = ''nan''))))"
  shows "\<exists>c. parse scan expectFullIdent scanner = Inr (c, s1) \<and> toProto c = contents s1 \<and>
           start c = startPos s1 \<and> end' c = endPos s1"
  using assms by (auto simp add: parse_def Let_def toProto_constructor constructor_fields)

text \<open>
  C1. The spec asks that \<^verbatim>\<open>toProto\<close> of a parsed node is the exact source text of every
  token \<^verbatim>\<open>parse\<close> consumed, lookahead included. On the two lexemes of \<^verbatim>\<open>-1\<close> the code
  consumes both, the sign and the integer, and the node it returns re-serialises to the
  sign alone.
\<close>

theorem parse_sign_lookahead_dropped:
  "(case parse scanList expectFullIdentList (newScanner minusOne) of
      Inl err \<Rightarrow> False
    | Inr (c, s') \<Rightarrow>
        toProto c = ''-'' \<and> literalType c = LString \<and> end' c = (1, 2) \<and> pending s' = [] \<and>
        consumedText (newScanner minusOne) s' = ''-1'')"
  by (simp add: parse_def Let_def scanList_def newScanner_def constructor_def toProto_def
        consumedText_def minusOne_def)

subsection \<open>Identifiers\<close>

text \<open>
  Whatever the helper does to the scanner and whatever it returns, an identifier node
  carries the text of the first token, and ends where the helper left the scanner.
\<close>

lemma parse_identifier:
  assumes "scan scanner = Inr (Token_identifier, s1)"
    and "contents s1 \<noteq> ''true''" and "contents s1 \<noteq> ''false''"
    and "expectFullIdent s1 False = Inr (r, s2)"
  shows "parse scan expectFullIdent scanner =
           Inr (constructor LIdentifier (contents s1) (startPos s1) (endPos s2), s2)"
  using assms by (simp add: parse_def)

text \<open>
  C2. The spec asks that parsing \<^verbatim>\<open>my.Enum.VALUE\<close> gives an identifier node whose value
  is the full identifier text, ending after the last continuation token. The code
  consumes the continuation, the node is an identifier and ends after \<^verbatim>\<open>VALUE\<close>, and
  its value and raw text are the first segment \<^verbatim>\<open>my\<close> alone: \<^verbatim>\<open>value\<close> was read
  before the helper ran, and what the helper returns is dropped.
\<close>

theorem parse_dotted_identifier_first_segment:
  "(case parse scanList expectFullIdentList (newScanner dottedName) of
      Inl err \<Rightarrow> False
    | Inr (c, s') \<Rightarrow>
        literalType c = LIdentifier \<and> value' c = VString ''my'' \<and> raw c = ''my'' \<and>
        end' c = (1, 13) \<and> pending s' = [] \<and>
        consumedText (newScanner dottedName) s' = ''my.Enum.VALUE'')"
  by (simp add: parse_def Let_def scanList_def newScanner_def constructor_def consumedText_def
        expectFullIdentList_def dottedName_def)

subsection \<open>The conversions of the constructor\<close>

text \<open>
  C3. A node built with kind int or float keeps its kind, and its value is the number
  \<^verbatim>\<open>Number(raw)\<close> when that is finite and not NaN, and \<^verbatim>\<open>null\<close> otherwise; the
  constructor returns a node in either case. The keywords \<^verbatim>\<open>inf\<close> and \<^verbatim>\<open>nan\<close>, the
  overflowing \<^verbatim>\<open>1e400\<close> and the malformed \<^verbatim>\<open>1.2.3\<close> all give \<^verbatim>\<open>null\<close>.
\<close>

theorem constructor_numeric_policy:
  assumes "lt = LInt \<or> lt = LFloat"
  shows "literalType (constructor lt r st en) = lt \<and>
         value' (constructor lt r st en) =
           (if isFinite (Number r) \<and> \<not> isNaN (Number r) then VNumber (Number r) else VNull) \<and>
         value' (constructor lt ''inf'' st en) = VNull \<and>
         value' (constructor lt ''nan'' st en) = VNull \<and>
         value' (constructor lt ''1e400'' st en) = VNull \<and>
         value' (constructor lt ''1.2.3'' st en) = VNull"
  using assms
  by (auto simp add: constructor_def Let_def Number_inf Number_nan Number_overflow
        Number_malformed isFinite_def isNaN_def)

theorem constructor_numeric_policy_witness:
  "literalType (constructor LFloat ''1e400'' (1, 0) (1, 5)) = LFloat \<and>
   value' (constructor LFloat ''1e400'' (1, 0) (1, 5)) = VNull \<and>
   value' (constructor LInt ''nan'' (1, 0) (1, 3)) = VNull"
  using constructor_numeric_policy [of LFloat "''1e400''" "(1, 0)" "(1, 5)"]
    constructor_numeric_policy [of LInt "''nan''" "(1, 0)" "(1, 3)"]
  by blast

lemma constructor_consistent: "kindValueConsistent (constructor lt r st en)"
  by (cases lt)
    (simp_all add: kindValueConsistent_def constructor_def typeOf_def numericType_def Let_def)

lemma parse_consistent:
  assumes "parse scan expectFullIdent scanner = Inr (c, s')"
  shows "kindValueConsistent c"
  using assms
  by (auto simp add: parse_def Let_def constructor_consistent
        split: sum.splits if_splits prod.splits)

text \<open>
  C5. The run-time type of the value of every node the constructor builds, and so of
  every node \<^verbatim>\<open>parse\<close> returns, is the one its kind asks for: boolean for a boolean,
  string for a string or an identifier, and for int and float a number, or \<^verbatim>\<open>null\<close>
  exactly when \<^verbatim>\<open>Number(raw)\<close> is not a finite number.
\<close>

theorem kind_value_consistent:
  "kindValueConsistent (constructor lt r st en) \<and>
   (parse scan expectFullIdent scanner = Inr (c, s') \<longrightarrow> kindValueConsistent c)"
  using constructor_consistent parse_consistent by blast

theorem kind_value_consistent_witness:
  "parse scanList expectFullIdentList (newScanner [(Token_float, ''1.5'', (2, 0), (2, 3))]) =
     Inr (constructor LFloat ''1.5'' (2, 0) (2, 3),
          \<lparr>contents = ''1.5'', startPos = (2, 0), endPos = (2, 3), pending = []\<rparr>) \<and>
   kindValueConsistent (constructor LFloat ''1.5'' (2, 0) (2, 3))"
proof -
  have p: "parse scanList expectFullIdentList (newScanner [(Token_float, ''1.5'', (2, 0), (2, 3))]) =
     Inr (constructor LFloat ''1.5'' (2, 0) (2, 3),
          \<lparr>contents = ''1.5'', startPos = (2, 0), endPos = (2, 3), pending = []\<rparr>)"
    by (simp add: parse_def Let_def scanList_def newScanner_def)
  from p kind_value_consistent [of LFloat "''1.5''" "(2, 0)" "(2, 3)" scanList expectFullIdentList
      "newScanner [(Token_float, ''1.5'', (2, 0), (2, 3))]" "constructor LFloat ''1.5'' (2, 0) (2, 3)"
      "\<lparr>contents = ''1.5'', startPos = (2, 0), endPos = (2, 3), pending = []\<rparr>"]
  show ?thesis
    by simp
qed

text \<open>
  C7. The value of a node built with kind string is \<^verbatim>\<open>raw.slice(1, -1)\<close>, the raw text
  without its first and without its last character: a raw text of two characters or more
  is its first character, the value, its last character, so the value is two characters
  shorter (a shorter raw text has nothing between its ends, and the value is empty). The
  interior is taken as it stands, a backslash included.
\<close>

theorem constructor_string_strip:
  "value' (constructor LString r st en) = VString (slice r 1 (- 1)) \<and>
   slice r 1 (- 1) = butlast (tl r) \<and>
   (2 \<le> length r \<longrightarrow>
      r = hd r # slice r 1 (- 1) @ [last r] \<and> length r = length (slice r 1 (- 1)) + 2)"
proof -
  have "2 \<le> length r \<longrightarrow>
          r = hd r # butlast (tl r) @ [last r] \<and> length r = length (butlast (tl r)) + 2"
  proof
    assume "2 \<le> length r"
    then have "r \<noteq> []" and "tl r \<noteq> []"
      by (cases r; auto)+
    then show "r = hd r # butlast (tl r) @ [last r] \<and> length r = length (butlast (tl r)) + 2"
      by (cases r) (simp_all add: last_tl)
  qed
  then show ?thesis
    by (simp add: constructor_def slice_strip)
qed

theorem constructor_string_strip_witness:
  "2 \<le> length [CHR 0x22, CHR ''a'', CHR 0x5C, CHR ''n'', CHR 0x22] \<and>
   value' (constructor LString [CHR 0x22, CHR ''a'', CHR 0x5C, CHR ''n'', CHR 0x22] (1, 0) (1, 5)) =
     VString [CHR ''a'', CHR 0x5C, CHR ''n''] \<and>
   [CHR 0x22, CHR ''a'', CHR 0x5C, CHR ''n'', CHR 0x22] =
     CHR 0x22 # [CHR ''a'', CHR 0x5C, CHR ''n''] @ [CHR 0x22]"
proof -
  note t = constructor_string_strip [of "[CHR 0x22, CHR ''a'', CHR 0x5C, CHR ''n'', CHR 0x22]"
      "(1, 0)" "(1, 5)"]
  from t have a:
    "value' (constructor LString [CHR 0x22, CHR ''a'', CHR 0x5C, CHR ''n'', CHR 0x22] (1, 0) (1, 5)) =
       VString (slice [CHR 0x22, CHR ''a'', CHR 0x5C, CHR ''n'', CHR 0x22] 1 (- 1))"
    by (rule conjunct1)
  from t have b:
    "slice [CHR 0x22, CHR ''a'', CHR 0x5C, CHR ''n'', CHR 0x22] 1 (- 1) =
       butlast (tl [CHR 0x22, CHR ''a'', CHR 0x5C, CHR ''n'', CHR 0x22])"
    by blast
  show ?thesis
    unfolding a b by simp
qed

subsection \<open>Booleans\<close>

text \<open>
  C6. When the first token is the identifier \<^verbatim>\<open>true\<close>, \<^verbatim>\<open>parse\<close> returns a boolean node
  of value true, and for the identifier \<^verbatim>\<open>false\<close> a boolean node of value false; a
  boolean node's value is always whether its text is \<^verbatim>\<open>true\<close>.
\<close>

theorem parse_boolean:
  assumes "scan scanner = Inr (Token_identifier, s1)"
    and "contents s1 = (if b then ''true'' else ''false'')"
  shows "(\<exists>c. parse scan expectFullIdent scanner = Inr (c, s1) \<and> literalType c = LBoolean \<and>
            value' c = VBoolean b) \<and>
         value' (constructor LBoolean r st en) = VBoolean (r = ''true'')"
  using assms by (auto simp add: parse_def constructor_def)

theorem parse_boolean_witness:
  "(\<exists>c. parse scanList expectFullIdentList
           (newScanner [(Token_identifier, ''true'', (2, 0), (2, 4))]) =
           Inr (c, \<lparr>contents = ''true'', startPos = (2, 0), endPos = (2, 4), pending = []\<rparr>) \<and>
         literalType c = LBoolean \<and> value' c = VBoolean True) \<and>
   (\<exists>c. parse scanList expectFullIdentList
           (newScanner [(Token_identifier, ''false'', (2, 0), (2, 5))]) =
           Inr (c, \<lparr>contents = ''false'', startPos = (2, 0), endPos = (2, 5), pending = []\<rparr>) \<and>
         literalType c = LBoolean \<and> value' c = VBoolean False)"
proof -
  have t: "scanList (newScanner [(Token_identifier, ''true'', (2, 0), (2, 4))]) =
      Inr (Token_identifier, \<lparr>contents = ''true'', startPos = (2, 0), endPos = (2, 4), pending = []\<rparr>)"
    by (simp add: scanList_def newScanner_def)
  have f: "scanList (newScanner [(Token_identifier, ''false'', (2, 0), (2, 5))]) =
      Inr (Token_identifier, \<lparr>contents = ''false'', startPos = (2, 0), endPos = (2, 5), pending = []\<rparr>)"
    by (simp add: scanList_def newScanner_def)
  show ?thesis
    using t f
      parse_boolean [of scanList "newScanner [(Token_identifier, ''true'', (2, 0), (2, 4))]"
        "\<lparr>contents = ''true'', startPos = (2, 0), endPos = (2, 4), pending = []\<rparr>" True
        expectFullIdentList]
      parse_boolean [of scanList "newScanner [(Token_identifier, ''false'', (2, 0), (2, 5))]"
        "\<lparr>contents = ''false'', startPos = (2, 0), endPos = (2, 5), pending = []\<rparr>" False
        expectFullIdentList]
    by simp
qed

text \<open>
  C10. A first token that is not a string and whose text is \<^verbatim>\<open>true\<close> gives a boolean
  node of value true whatever its kind; with the text \<^verbatim>\<open>false\<close> the node is a boolean
  only when the token is an identifier.
\<close>

theorem parse_true_any_token:
  assumes "scan scanner = Inr (token, s1)" and "token \<noteq> Token_string"
  shows "(contents s1 = ''true'' \<longrightarrow>
            parse scan expectFullIdent scanner =
              Inr (constructor LBoolean ''true'' (startPos s1) (endPos s1), s1) \<and>
            value' (constructor LBoolean ''true'' (startPos s1) (endPos s1)) = VBoolean True) \<and>
         (contents s1 = ''false'' \<longrightarrow>
            ((\<exists>c s'. parse scan expectFullIdent scanner = Inr (c, s') \<and> literalType c = LBoolean)
               \<longleftrightarrow> token = Token_identifier))"
  using assms
  by (auto simp add: parse_def constructor_def Let_def split: sum.splits prod.splits)

theorem parse_true_any_token_witness:
  "parse scanList expectFullIdentList (newScanner [(Token_token, ''true'', (2, 0), (2, 4))]) =
     Inr (constructor LBoolean ''true'' (2, 0) (2, 4),
          \<lparr>contents = ''true'', startPos = (2, 0), endPos = (2, 4), pending = []\<rparr>) \<and>
   \<not> (\<exists>c s'. parse scanList expectFullIdentList
               (newScanner [(Token_keyword, ''false'', (2, 0), (2, 5))]) = Inr (c, s') \<and>
             literalType c = LBoolean)"
proof -
  have t: "scanList (newScanner [(Token_token, ''true'', (2, 0), (2, 4))]) =
      Inr (Token_token, \<lparr>contents = ''true'', startPos = (2, 0), endPos = (2, 4), pending = []\<rparr>)"
    by (simp add: scanList_def newScanner_def)
  have f: "scanList (newScanner [(Token_keyword, ''false'', (2, 0), (2, 5))]) =
      Inr (Token_keyword, \<lparr>contents = ''false'', startPos = (2, 0), endPos = (2, 5), pending = []\<rparr>)"
    by (simp add: scanList_def newScanner_def)
  show ?thesis
    using t f
      parse_true_any_token [of scanList "newScanner [(Token_token, ''true'', (2, 0), (2, 4))]"
        Token_token
        "\<lparr>contents = ''true'', startPos = (2, 0), endPos = (2, 4), pending = []\<rparr>"
        expectFullIdentList]
      parse_true_any_token [of scanList "newScanner [(Token_keyword, ''false'', (2, 0), (2, 5))]"
        Token_keyword
        "\<lparr>contents = ''false'', startPos = (2, 0), endPos = (2, 5), pending = []\<rparr>"
        expectFullIdentList]
    by simp
qed

subsection \<open>Signs\<close>

text \<open>
  C8. When the first token is the symbol \<^verbatim>\<open>-\<close> or \<^verbatim>\<open>+\<close> and the next one is the
  keyword \<^verbatim>\<open>inf\<close>, \<^verbatim>\<open>parse\<close> returns an int node whose raw text is the sign followed by
  \<^verbatim>\<open>inf\<close> and whose value is \<^verbatim>\<open>null\<close>; it starts where the sign starts and ends where
  the scanner stands after the second token.
\<close>

theorem parse_sign_inf:
  assumes "scan scanner = Inr (Token_token, s1)"
    and "contents s1 = ''-'' \<or> contents s1 = ''+''"
    and "scan s1 = Inr (Token_keyword, s2)"
    and "contents s2 = ''inf''"
  shows "\<exists>c. parse scan expectFullIdent scanner = Inr (c, s2) \<and> literalType c = LInt \<and>
           raw c = contents s1 @ ''inf'' \<and> value' c = VNull \<and>
           start c = startPos s1 \<and> end' c = endPos s2"
  using assms
  by (auto simp add: parse_def constructor_def Number_minus_inf Number_plus_inf isNaN_def)

theorem parse_sign_inf_witness:
  "\<exists>c. parse scanList expectFullIdentList
          (newScanner [(Token_token, ''-'', (3, 4), (3, 5)), (Token_keyword, ''inf'', (3, 5), (3, 8))])
          = Inr (c, \<lparr>contents = ''inf'', startPos = (3, 5), endPos = (3, 8), pending = []\<rparr>) \<and>
        literalType c = LInt \<and> raw c = ''-inf'' \<and> value' c = VNull \<and>
        start c = (3, 4) \<and> end' c = (3, 8)"
  using parse_sign_inf [of scanList
      "newScanner [(Token_token, ''-'', (3, 4), (3, 5)), (Token_keyword, ''inf'', (3, 5), (3, 8))]"
      "\<lparr>contents = ''-'', startPos = (3, 4), endPos = (3, 5),
         pending = [(Token_keyword, ''inf'', (3, 5), (3, 8))]\<rparr>"
      "\<lparr>contents = ''inf'', startPos = (3, 5), endPos = (3, 8), pending = []\<rparr>"
      expectFullIdentList]
  by (simp add: scanList_def newScanner_def)

text \<open>
  C9. When the first token is the symbol \<^verbatim>\<open>-\<close> or \<^verbatim>\<open>+\<close> and the second scan returns a
  token that is not the keyword \<^verbatim>\<open>inf\<close>, \<^verbatim>\<open>parse\<close> raises nothing: it returns a node of
  kind string whose raw text is the sign and whose value is the empty string, with the
  scanner left after the second token.
\<close>

theorem parse_sign_other:
  assumes "scan scanner = Inr (Token_token, s1)"
    and "contents s1 = ''-'' \<or> contents s1 = ''+''"
    and "scan s1 = Inr (token2, s2)"
    and "\<not> (token2 = Token_keyword \<and> contents s2 = ''inf'')"
  shows "\<exists>c. parse scan expectFullIdent scanner = Inr (c, s2) \<and> literalType c = LString \<and>
           raw c = contents s1 \<and> value' c = VString [] \<and> end' c = endPos s2"
  using assms by (auto simp add: parse_def constructor_def slice_strip)

theorem parse_sign_other_witness:
  "\<exists>c. parse scanList expectFullIdentList
          (newScanner [(Token_token, ''+'', (3, 4), (3, 5)), (Token_int, ''7'', (3, 5), (3, 6))])
          = Inr (c, \<lparr>contents = ''7'', startPos = (3, 5), endPos = (3, 6), pending = []\<rparr>) \<and>
        literalType c = LString \<and> raw c = ''+'' \<and> value' c = VString [] \<and> end' c = (3, 6)"
  using parse_sign_other [of scanList
      "newScanner [(Token_token, ''+'', (3, 4), (3, 5)), (Token_int, ''7'', (3, 5), (3, 6))]"
      "\<lparr>contents = ''+'', startPos = (3, 4), endPos = (3, 5),
         pending = [(Token_int, ''7'', (3, 5), (3, 6))]\<rparr>"
      Token_int
      "\<lparr>contents = ''7'', startPos = (3, 5), endPos = (3, 6), pending = []\<rparr>"
      expectFullIdentList]
  by (simp add: scanList_def newScanner_def)

subsection \<open>Unrecognised tokens\<close>

text \<open>
  A first token that is none of a string, an identifier, an integer, a float, the symbol
  \<^verbatim>\<open>+\<close> or \<^verbatim>\<open>-\<close>, the keyword \<^verbatim>\<open>inf\<close> or \<^verbatim>\<open>nan\<close> is refused with a \<^verbatim>\<open>TokenError\<close>
  that carries the scanner and the token, provided its text is not \<^verbatim>\<open>true\<close>.
\<close>

lemma parse_unrecognized:
  assumes "scan scanner = Inr (token, s1)"
    and "token \<noteq> Token_string" and "token \<noteq> Token_identifier"
    and "token \<noteq> Token_int" and "token \<noteq> Token_float"
    and "\<not> (token = Token_token \<and> (contents s1 = ''-'' \<or> contents s1 = ''+''))"
    and "\<not> (token = Token_keyword \<and> (contents s1 = ''inf'' \<or> contents s1 = ''nan''))"
    and "contents s1 \<noteq> ''true''"
  shows "parse scan expectFullIdent scanner = Inl (TokenError s1 token)"
  using assms by (auto simp add: parse_def Let_def)

lemma parse_stray_brace:
  "parse scanList expectFullIdentList (newScanner [(Token_token, ''{'', (1, 0), (1, 1))]) =
     Inl (TokenError \<lparr>contents = ''{'', startPos = (1, 0), endPos = (1, 1), pending = []\<rparr>
            Token_token)"
  by (simp add: parse_def Let_def scanList_def newScanner_def)

text \<open>
  C4. The spec asks that a first token that is not a string, an identifier, an integer, a
  float, the symbol \<^verbatim>\<open>+\<close> or \<^verbatim>\<open>-\<close>, or the keyword \<^verbatim>\<open>inf\<close> or \<^verbatim>\<open>nan\<close> makes \<^verbatim>\<open>parse\<close>
  fail with a \<^verbatim>\<open>TokenError\<close> and produce no node. On a keyword token whose text is
  \<^verbatim>\<open>true\<close> the code returns a boolean node instead: in the boolean condition the test
  for an identifier guards the comparison with \<^verbatim>\<open>false\<close> only.
\<close>

theorem parse_keyword_true_accepted:
  "(case parse scanList expectFullIdentList
           (newScanner [(Token_keyword, ''true'', (1, 0), (1, 4))]) of
      Inl err \<Rightarrow> False
    | Inr (c, s') \<Rightarrow>
        literalType c = LBoolean \<and> value' c = VBoolean True \<and> raw c = ''true'' \<and>
        start c = (1, 0) \<and> end' c = (1, 4) \<and> pending s' = [])"
  by (simp add: parse_def Let_def scanList_def newScanner_def constructor_def)

end
